theory Spec2Isabelle
  imports Main
begin

section \<open>Time, errors and claim values\<close>

text \<open>
  A \<^verbatim>\<open>time.Time\<close> is an instant counted in nanoseconds since the Unix epoch, a
  \<^verbatim>\<open>time.Duration\<close> a number of nanoseconds that fits an int64. \<^verbatim>\<open>Time.Unix\<close> is the
  whole number of seconds of the instant (rounded down), \<^verbatim>\<open>Time.Sub\<close> saturates at the
  least and greatest duration. One call of an operation reads the clock once: the
  \<^verbatim>\<open>time.Now()\<close> calls of one operation all return the instant \<open>now\<close>.
\<close>

type_synonym instant = int
type_synonym duration = int

definition minDuration :: duration where
  "minDuration = - (2 ^ 63)"

definition maxDuration :: duration where
  "maxDuration = 2 ^ 63 - 1"

definition Second :: duration where
  "Second = 1000000000"

definition time_Unix :: "instant \<Rightarrow> int" where
  "time_Unix t = t div Second"

definition time_Add :: "instant \<Rightarrow> duration \<Rightarrow> instant" where
  "time_Add t d = t + d"

definition time_Sub :: "instant \<Rightarrow> instant \<Rightarrow> duration" where
  "time_Sub t u =
     (let d = t - u
      in if d < minDuration then minDuration
         else if maxDuration < d then maxDuration
         else d)"

text \<open>
  A Go \<^verbatim>\<open>error\<close> built by \<^verbatim>\<open>fmt.Errorf\<close> is its message; a failed type assertion is a
  panic. \<open>Inl\<close> carries the error of a call, \<open>Inr\<close> its results.
\<close>

datatype error = Error string | Panic string

text \<open>The values of a claim set (\<^verbatim>\<open>map[string]interface{}\<close>).\<close>

datatype jvalue = JString string | JNumber int | JBool bool

type_synonym claims = "string \<rightharpoonup> jvalue"

section \<open>The libraries the package calls\<close>

text \<open>
  The JWT library (\<^verbatim>\<open>jwtauth\<close>) is a parameter. A \<^verbatim>\<open>*jwtauth.JWTAuth\<close> made by
  \<^verbatim>\<open>jwtauth.New("HS256", secret, nil)\<close> is represented by its secret, and the handlers run
  after \<open>Initialize\<close> has assigned both instances. \<open>Encode\<close> returns an error message
  or the token string. \<open>Decode\<close> and \<open>VerifyToken\<close> return an error message or the
  token, which may be nil (\<open>None\<close>); they may read the clock.
\<close>

record jwt_lib =
  Encode :: "string \<Rightarrow> claims \<Rightarrow> string + string"
  Decode :: "string \<Rightarrow> instant \<Rightarrow> string \<Rightarrow> string + claims option"
  VerifyToken :: "string \<Rightarrow> instant \<Rightarrow> string \<Rightarrow> string + claims option"

text \<open>
  \<^verbatim>\<open>hex.EncodeToString\<close>: two lower-case hexadecimal digits for each byte. A byte is a
  \<^typ>\<open>char\<close>.
\<close>

definition hexdigit :: "nat \<Rightarrow> char" where
  "hexdigit n = ''0123456789abcdef'' ! (n mod 16)"

definition hex_EncodeToString :: "char list \<Rightarrow> string" where
  "hex_EncodeToString bs =
     concat (map (\<lambda>b. [hexdigit (of_char b div 16), hexdigit (of_char b mod 16)]) bs)"

section \<open>auth: users\<close>

record User =
  Username :: string
  PasswordHash :: string

record Session =
  Username :: string
  RefreshTokenHash :: string
  CreatedAt :: instant
  LastUsedAt :: instant
  UserAgent :: string

text \<open>
  The package-level variables of \<^verbatim>\<open>auth\<close>: the user table, the session table of
  \<^verbatim>\<open>sessionStore\<close>, the two JWT instances and the two durations. The mutex of the store
  serialises the operations; each operation below is one critical section or a
  sequence of them.
\<close>

record server =
  users :: "string \<rightharpoonup> User"
  sessions :: "string \<rightharpoonup> Session"
  AccessTokenAuth :: string
  RefreshTokenAuth :: string
  AccessTokenDuration :: duration
  RefreshTokenDuration :: duration

text \<open>
  \<open>InitializeUsers\<close> reads the environment (\<^verbatim>\<open>os.Getenv\<close> gives the empty string for an
  unset variable); \<open>gen\<close> is \<^verbatim>\<open>bcrypt.GenerateFromPassword\<close> at the default cost. The
  result is the returned error (\<open>None\<close> is nil) and the state.
\<close>

definition InitializeUsers ::
  "(string \<Rightarrow> string + string) \<Rightarrow> (string \<Rightarrow> string) \<Rightarrow> server \<Rightarrow> error option \<times> server" where
  "InitializeUsers gen getenv st =
     (let adminUsername = getenv ''ADMIN_USERNAME''
      in if adminUsername = [] then
           (Some (Error ''ADMIN_USERNAME environment variable is required''), st)
         else
           let adminPassword = getenv ''ADMIN_PASSWORD''
           in if adminPassword = [] then
                (Some (Error ''ADMIN_PASSWORD environment variable is required''), st)
              else if length adminPassword < 8 then
                (Some (Error ''ADMIN_PASSWORD must be at least 8 characters long''), st)
              else
                (case gen adminPassword of
                   Inl err \<Rightarrow> (Some (Error (''failed to hash admin password: '' @ err)), st)
                 | Inr hash \<Rightarrow>
                     (None,
                      st\<lparr>users := (users st)(adminUsername \<mapsto>
                            \<lparr>User.Username = adminUsername, PasswordHash = hash\<rparr>)\<rparr>)))"

text \<open>
  \<open>ValidateCredentials\<close>; \<open>cmp hash password\<close> is the error returned by
  \<^verbatim>\<open>bcrypt.CompareHashAndPassword\<close> (\<open>None\<close> is nil).
\<close>

definition ValidateCredentials ::
  "(string \<Rightarrow> string \<Rightarrow> string option) \<Rightarrow> string \<Rightarrow> string \<Rightarrow> server \<Rightarrow> error option" where
  "ValidateCredentials cmp username password st =
     (case users st username of
        None \<Rightarrow> Some (Error ''invalid credentials'')
      | Some user \<Rightarrow>
          (case cmp (PasswordHash user) password of
             Some err \<Rightarrow> Some (Error ''invalid credentials'')
           | None \<Rightarrow> None))"

definition AddUser ::
  "(string \<Rightarrow> string + string) \<Rightarrow> string \<Rightarrow> string \<Rightarrow> server \<Rightarrow> error option \<times> server" where
  "AddUser gen username password st =
     (case users st username of
        Some u \<Rightarrow> (Some (Error ''user already exists''), st)
      | None \<Rightarrow>
          (case gen password of
             Inl err \<Rightarrow> (Some (Error (''failed to hash password: '' @ err)), st)
           | Inr hash \<Rightarrow>
               (None,
                st\<lparr>users := (users st)(username \<mapsto>
                      \<lparr>User.Username = username, PasswordHash = hash\<rparr>)\<rparr>)))"

definition GetUserCount :: "server \<Rightarrow> nat" where
  "GetUserCount st = card (dom (users st))"

definition UserExists :: "string \<Rightarrow> server \<Rightarrow> bool" where
  "UserExists username st = (users st username \<noteq> None)"

section \<open>auth: tokens and sessions\<close>

text \<open>
  \<open>Initialize\<close>; \<open>parse\<close> is \<^verbatim>\<open>time.ParseDuration\<close>, which returns the zero duration
  with its error. The cleanup goroutine it starts is \<open>cleanupExpiredSessions\<close> below.
\<close>

definition Initialize ::
  "(string \<Rightarrow> string + duration) \<Rightarrow> (string \<Rightarrow> string) \<Rightarrow> server \<Rightarrow> error option \<times> server" where
  "Initialize parse getenv st =
     (let accessSecret =
            (if getenv ''JWT_ACCESS_SECRET'' = []
             then ''default-access-secret-change-this-in-production''
             else getenv ''JWT_ACCESS_SECRET'');
          refreshSecret =
            (if getenv ''JWT_REFRESH_SECRET'' = []
             then ''default-refresh-secret-change-this-in-production''
             else getenv ''JWT_REFRESH_SECRET'');
          st1 = st\<lparr>AccessTokenAuth := accessSecret, RefreshTokenAuth := refreshSecret\<rparr>;
          accessDuration =
            (if getenv ''ACCESS_TOKEN_DURATION'' = [] then ''5m''
             else getenv ''ACCESS_TOKEN_DURATION'')
      in case parse accessDuration of
           Inl err \<Rightarrow>
             (Some (Error (''invalid ACCESS_TOKEN_DURATION: '' @ err)),
              st1\<lparr>AccessTokenDuration := 0\<rparr>)
         | Inr ad \<Rightarrow>
             let st2 = st1\<lparr>AccessTokenDuration := ad\<rparr>;
                 refreshDuration =
                   (if getenv ''REFRESH_TOKEN_DURATION'' = [] then ''168h''
                    else getenv ''REFRESH_TOKEN_DURATION'')
             in case parse refreshDuration of
                  Inl err \<Rightarrow>
                    (Some (Error (''invalid REFRESH_TOKEN_DURATION: '' @ err)),
                     st2\<lparr>RefreshTokenDuration := 0\<rparr>)
                | Inr rd \<Rightarrow> (None, st2\<lparr>RefreshTokenDuration := rd\<rparr>))"

definition GenerateAccessToken ::
  "jwt_lib \<Rightarrow> instant \<Rightarrow> string \<Rightarrow> server \<Rightarrow> error + string \<times> instant" where
  "GenerateAccessToken lib now username st =
     (let expiresAt = time_Add now (AccessTokenDuration st);
          cl = [''username'' \<mapsto> JString username,
                ''exp'' \<mapsto> JNumber (time_Unix expiresAt),
                ''iat'' \<mapsto> JNumber (time_Unix now)]
      in case Encode lib (AccessTokenAuth st) cl of
           Inl err \<Rightarrow> Inl (Error (''failed to generate access token: '' @ err))
         | Inr tokenString \<Rightarrow> Inr (tokenString, expiresAt))"

text \<open>
  \<open>generateRandomString\<close>; \<open>rd n\<close> is what \<^verbatim>\<open>rand.Read\<close> delivers for a buffer of
  \<open>n\<close> bytes during this call: an error or the bytes.
\<close>

definition generateRandomString :: "(nat \<Rightarrow> string + char list) \<Rightarrow> nat \<Rightarrow> string + string" where
  "generateRandomString rd n =
     (case rd n of Inl err \<Rightarrow> Inl err | Inr bytes \<Rightarrow> Inr (hex_EncodeToString bytes))"

definition GenerateRefreshToken ::
  "jwt_lib \<Rightarrow> instant \<Rightarrow> (nat \<Rightarrow> string + char list) \<Rightarrow> string \<Rightarrow> server
     \<Rightarrow> error + string \<times> instant" where
  "GenerateRefreshToken lib now rd username st =
     (let expiresAt = time_Add now (RefreshTokenDuration st)
      in case generateRandomString rd 32 of
           Inl err \<Rightarrow> Inl (Error (''failed to generate token ID: '' @ err))
         | Inr tokenID \<Rightarrow>
             let cl = [''username'' \<mapsto> JString username,
                       ''token_id'' \<mapsto> JString tokenID,
                       ''exp'' \<mapsto> JNumber (time_Unix expiresAt),
                       ''iat'' \<mapsto> JNumber (time_Unix now)]
             in case Encode lib (RefreshTokenAuth st) cl of
                  Inl err \<Rightarrow> Inl (Error (''failed to generate refresh token: '' @ err))
                | Inr tokenString \<Rightarrow> Inr (tokenString, expiresAt))"

definition hashToken :: "string \<Rightarrow> string" where
  "hashToken token = token"

definition CreateSession ::
  "jwt_lib \<Rightarrow> instant \<Rightarrow> (nat \<Rightarrow> string + char list) \<Rightarrow> string \<Rightarrow> string \<Rightarrow> server
     \<Rightarrow> (error + string \<times> string) \<times> server" where
  "CreateSession lib now rd username userAgent st =
     (case GenerateAccessToken lib now username st of
        Inl err \<Rightarrow> (Inl err, st)
      | Inr (accessToken, ea) \<Rightarrow>
          (case GenerateRefreshToken lib now rd username st of
             Inl err \<Rightarrow> (Inl err, st)
           | Inr (refreshToken, er) \<Rightarrow>
               let session = \<lparr>Session.Username = username,
                               RefreshTokenHash = hashToken refreshToken,
                               CreatedAt = now, LastUsedAt = now,
                               UserAgent = userAgent\<rparr>
               in (Inr (accessToken, refreshToken),
                   st\<lparr>sessions := (sessions st)(RefreshTokenHash session \<mapsto> session)\<rparr>)))"

definition RevokeSession :: "string \<Rightarrow> server \<Rightarrow> server" where
  "RevokeSession tokenHash st = st\<lparr>sessions := (sessions st)(tokenHash := None)\<rparr>"

definition RefreshSession ::
  "jwt_lib \<Rightarrow> instant \<Rightarrow> (nat \<Rightarrow> string + char list) \<Rightarrow> string \<Rightarrow> string \<Rightarrow> server
     \<Rightarrow> (error + string \<times> string) \<times> server" where
  "RefreshSession lib now rd oldRefreshToken userAgent st =
     (let tokenHash = hashToken oldRefreshToken
      in case sessions st tokenHash of
           None \<Rightarrow> (Inl (Error ''invalid or expired refresh token''), st)
         | Some s \<Rightarrow>
             (case Decode lib (RefreshTokenAuth st) now oldRefreshToken of
                Inl err \<Rightarrow> (Inl (Error ''invalid refresh token''), RevokeSession tokenHash st)
              | Inr None \<Rightarrow> (Inl (Error ''invalid refresh token''), RevokeSession tokenHash st)
              | Inr (Some token) \<Rightarrow>
                  (case token ''username'' of
                     None \<Rightarrow> (Inl (Error ''invalid token claims''), st)
                   | Some username \<Rightarrow>
                       let st1 = RevokeSession tokenHash st
                       in (case username of
                             JString u \<Rightarrow> CreateSession lib now rd u userAgent st1
                           | JNumber n \<Rightarrow> (Inl (Panic ''interface conversion''), st1)
                           | JBool b \<Rightarrow> (Inl (Panic ''interface conversion''), st1)))))"

text \<open>
  The two loops over the session table delete while they range over it. \<open>ks\<close> is the
  order in which the \<^verbatim>\<open>range\<close> visits the keys; Go leaves it unspecified. A key whose
  entry is gone when its turn comes is not produced.
\<close>

definition RevokeAllUserSessions :: "string list \<Rightarrow> string \<Rightarrow> server \<Rightarrow> server" where
  "RevokeAllUserSessions ks username st =
     st\<lparr>sessions :=
          fold (\<lambda>hash m. case m hash of
                           None \<Rightarrow> m
                         | Some session \<Rightarrow>
                             if Session.Username session = username then m(hash := None) else m)
               ks (sessions st)\<rparr>"

text \<open>One tick of the hourly ticker in \<open>cleanupExpiredSessions\<close>: the body of the loop.\<close>

definition cleanupExpiredSessions :: "string list \<Rightarrow> instant \<Rightarrow> server \<Rightarrow> server" where
  "cleanupExpiredSessions ks now st =
     st\<lparr>sessions :=
          fold (\<lambda>hash m. case m hash of
                           None \<Rightarrow> m
                         | Some session \<Rightarrow>
                             if time_Sub now (CreatedAt session) > RefreshTokenDuration st
                             then m(hash := None) else m)
               ks (sessions st)\<rparr>"

definition GetSessionCount :: "server \<Rightarrow> nat" where
  "GetSessionCount st = card (dom (sessions st))"

section \<open>handlers and middleware\<close>

text \<open>
  A request carries its cookies in the order of the header; \<^verbatim>\<open>r.Cookie(name)\<close> gives the
  first cookie of that name, and an error when there is none or the name is empty.
\<close>

record request =
  Cookies :: "(string \<times> string) list"
  UserAgentHeader :: string

definition Cookie :: "request \<Rightarrow> string \<Rightarrow> string option" where
  "Cookie r name = (if name = [] then None else map_of (Cookies r) name)"

record http_cookie =
  Name :: string
  Value :: string
  Path :: string
  MaxAge :: int
  HttpOnly :: bool
  Secure :: bool

datatype body = Text string | Json "(string \<times> jvalue) list"

record response =
  StatusCode :: nat
  SetCookie :: "http_cookie list"
  Body :: body

definition http_Error :: "string \<Rightarrow> nat \<Rightarrow> response" where
  "http_Error msg code = \<lparr>StatusCode = code, SetCookie = [], Body = Text msg\<rparr>"

definition clearAuthCookies :: "(string \<Rightarrow> string) \<Rightarrow> http_cookie list" where
  "clearAuthCookies getenv =
     [\<lparr>Name = ''access_token'', Value = [], Path = ''/'', MaxAge = - 1,
       HttpOnly = True, Secure = (getenv ''ENVIRONMENT'' = ''production'')\<rparr>,
      \<lparr>Name = ''refresh_token'', Value = [], Path = ''/auth/refresh'', MaxAge = - 1,
       HttpOnly = True, Secure = (getenv ''ENVIRONMENT'' = ''production'')\<rparr>]"

text \<open>
  \<open>Logout\<close> reads the refresh cookie into \<^verbatim>\<open>tokenHash\<close> and discards it
  (\<^verbatim>\<open>_ = tokenHash\<close>): the handler cannot reach the unexported \<^verbatim>\<open>sessionStore\<close>.
\<close>

definition Logout :: "(string \<Rightarrow> string) \<Rightarrow> request \<Rightarrow> server \<Rightarrow> response \<times> server" where
  "Logout getenv r st =
     (let st1 = (case Cookie r ''refresh_token'' of
                   Some tokenHash \<Rightarrow> st
                 | None \<Rightarrow> st)
      in (\<lparr>StatusCode = 200, SetCookie = clearAuthCookies getenv,
           Body = Json [(''message'', JString ''Logged out successfully'')]\<rparr>, st1))"

text \<open>
  \<open>Protected\<close> either answers 401 itself or calls the next handler with the token and,
  when the token has one, the \<^verbatim>\<open>username\<close> value in the request context.
\<close>

datatype guard = Rejected response | Next claims "jvalue option"

definition Protected :: "jwt_lib \<Rightarrow> instant \<Rightarrow> request \<Rightarrow> server \<Rightarrow> guard" where
  "Protected lib now r st =
     (case Cookie r ''access_token'' of
        None \<Rightarrow> Rejected (http_Error ''Unauthorized - No access token'' 401)
      | Some v \<Rightarrow>
          (case VerifyToken lib (AccessTokenAuth st) now v of
             Inl err \<Rightarrow> Rejected (http_Error ''Unauthorized - Invalid token'' 401)
           | Inr None \<Rightarrow> Rejected (http_Error ''Unauthorized - Token validation failed'' 401)
           | Inr (Some token) \<Rightarrow> Next token (token ''username'')))"

fun GetUsername :: "jvalue option \<Rightarrow> string" where
  "GetUsername (Some (JString u)) = u"
| "GetUsername _ = []"

text \<open>Whether the guard let the request through.\<close>

fun passed :: "guard \<Rightarrow> bool" where
  "passed (Next token username) = True"
| "passed (Rejected resp) = False"

section \<open>Runs of the session store\<close>

text \<open>
  The calls that touch the session table, with what each reads from outside (clock,
  random bytes, visiting order, request). \<open>step\<close> is the state after the call,
  \<open>issued\<close> the refresh token the call hands to its caller, if any.
\<close>

datatype event =
    DoCreate instant "nat \<Rightarrow> string + char list" string string
  | DoRefresh instant "nat \<Rightarrow> string + char list" string string
  | DoRevoke string
  | DoRevokeAll "string list" string
  | DoCleanup "string list" instant
  | DoLogout "string \<Rightarrow> string" request

fun step :: "jwt_lib \<Rightarrow> event \<Rightarrow> server \<Rightarrow> server" where
  "step lib (DoCreate now rd u ua) st = snd (CreateSession lib now rd u ua st)"
| "step lib (DoRefresh now rd t ua) st = snd (RefreshSession lib now rd t ua st)"
| "step lib (DoRevoke h) st = RevokeSession h st"
| "step lib (DoRevokeAll ks u) st = RevokeAllUserSessions ks u st"
| "step lib (DoCleanup ks now) st = cleanupExpiredSessions ks now st"
| "step lib (DoLogout getenv r) st = snd (Logout getenv r st)"

definition refresh_of :: "(error + string \<times> string) \<Rightarrow> string option" where
  "refresh_of res = (case res of Inl err \<Rightarrow> None | Inr (a, r) \<Rightarrow> Some r)"

fun issued :: "jwt_lib \<Rightarrow> event \<Rightarrow> server \<Rightarrow> string option" where
  "issued lib (DoCreate now rd u ua) st = refresh_of (fst (CreateSession lib now rd u ua st))"
| "issued lib (DoRefresh now rd t ua) st = refresh_of (fst (RefreshSession lib now rd t ua st))"
| "issued lib ev st = None"

fun run :: "jwt_lib \<Rightarrow> event list \<Rightarrow> server \<Rightarrow> server" where
  "run lib [] st = st"
| "run lib (ev # evs) st = run lib evs (step lib ev st)"

fun never_issues :: "jwt_lib \<Rightarrow> string \<Rightarrow> event list \<Rightarrow> server \<Rightarrow> bool" where
  "never_issues lib t [] st = True"
| "never_issues lib t (ev # evs) st =
     (issued lib ev st \<noteq> Some t \<and> never_issues lib t evs (step lib ev st))"

text \<open>
  The states the store reaches from an empty table, each with the set of refresh
  tokens handed out on the way.
\<close>

inductive reachable :: "jwt_lib \<Rightarrow> server \<Rightarrow> string set \<Rightarrow> bool" for lib where
  initial: "sessions st = Map.empty \<Longrightarrow> reachable lib st {}"
| after: "reachable lib st T \<Longrightarrow>
         reachable lib (step lib ev st) (T \<union> set_option (issued lib ev st))"

section \<open>The token codec's contract\<close>

text \<open>
  Modelled from the spec: the verification of the JWT library, which is not part of the
  repository's source. The Token Codec's Verify "checks signature and expiry", and "a
  token is valid iff now < expiresAt (strict)": a token string that \<open>Encode\<close> made
  under a key from claims with the expiry \<open>e\<close> (a Unix time in seconds) is accepted
  under that key at the instant \<open>now\<close> exactly when \<open>now\<close> lies before \<open>e\<close>.
\<close>

definition verifies_until_expiry :: "jwt_lib \<Rightarrow> bool" where
  "verifies_until_expiry lib =
     (\<forall>key cl tok e now.
        Encode lib key cl = Inr tok \<longrightarrow> cl ''exp'' = Some (JNumber e) \<longrightarrow>
        ((\<exists>c. VerifyToken lib key now tok = Inr (Some c)) \<longleftrightarrow> now < e * Second))"

text \<open>
  Modelled from the spec: the decoding of the JWT library, which is not part of the
  repository's source. The Token Codec "produces and parses signed claim sets": a token
  that \<open>Decode\<close> returns for a string that \<open>Encode\<close> made under the same key
  has the user name that was encoded.
\<close>

definition decode_returns_username :: "jwt_lib \<Rightarrow> bool" where
  "decode_returns_username lib =
     (\<forall>key cl tok now c.
        Encode lib key cl = Inr tok \<longrightarrow> Decode lib key now tok = Inr (Some c) \<longrightarrow>
        c ''username'' = cl ''username'')"

text \<open>A key of the session table is minted when it is a token string made by \<open>Encode\<close>
  under the refresh key from claims with a user name, as \<open>GenerateRefreshToken\<close> makes
  them.\<close>

definition minted :: "jwt_lib \<Rightarrow> server \<Rightarrow> string \<Rightarrow> bool" where
  "minted lib st k =
     (\<exists>cl u. Encode lib (RefreshTokenAuth st) cl = Inr k \<and> cl ''username'' = Some (JString u))"

section \<open>Sample instances\<close>

text \<open>
  Concrete values at which the theorems below are instantiated. \<open>sample_lib\<close> is a
  small codec that meets the contracts above: a token is the expiry in unary, the key
  and the user name, separated by dots. As in \<^verbatim>\<open>jwtauth\<close>, \<open>Decode\<close> parses the token
  and checks the key it carries, without reading the clock; \<open>VerifyToken\<close> also refuses
  the token from its expiry on.
\<close>

definition sample_Encode :: "string \<Rightarrow> claims \<Rightarrow> string + string" where
  "sample_Encode key cl =
     (case cl ''exp'' of
        Some (JNumber e) \<Rightarrow>
          (case cl ''username'' of
             Some (JString u) \<Rightarrow>
               if 0 \<le> e then Inr (replicate (nat e) CHR ''I'' @ ''.'' @ key @ ''.'' @ u)
               else Inl ''negative expiry''
           | _ \<Rightarrow> Inl ''no user name'')
      | _ \<Rightarrow> Inl ''no expiry'')"

definition sample_Verify :: "string \<Rightarrow> instant \<Rightarrow> string \<Rightarrow> string + claims option" where
  "sample_Verify key now tok =
     (let e = int (length (takeWhile (\<lambda>c. c = CHR ''I'') tok));
          rest = dropWhile (\<lambda>c. c = CHR ''I'') tok
      in if take (length key + 2) rest \<noteq> ''.'' @ key @ ''.'' then Inl ''signature mismatch''
         else if now < e * Second then
           Inr (Some [''username'' \<mapsto> JString (drop (length key + 2) rest),
                      ''exp'' \<mapsto> JNumber e])
         else Inl ''token is expired'')"

definition sample_Decode :: "string \<Rightarrow> instant \<Rightarrow> string \<Rightarrow> string + claims option" where
  "sample_Decode key now tok =
     (let e = int (length (takeWhile (\<lambda>c. c = CHR ''I'') tok));
          rest = dropWhile (\<lambda>c. c = CHR ''I'') tok
      in if take (length key + 2) rest \<noteq> ''.'' @ key @ ''.'' then Inl ''signature mismatch''
         else Inr (Some [''username'' \<mapsto> JString (drop (length key + 2) rest),
                         ''exp'' \<mapsto> JNumber e]))"

definition sample_lib :: jwt_lib where
  "sample_lib = \<lparr>Encode = sample_Encode, Decode = sample_Decode, VerifyToken = sample_Verify\<rparr>"

definition sample_rd :: "nat \<Rightarrow> string + char list" where
  "sample_rd n = Inr (replicate n CHR ''*'')"

definition sample_gen :: "string \<Rightarrow> string + string" where
  "sample_gen password = Inr (''$2a$10$'' @ password)"

definition sample_cmp :: "string \<Rightarrow> string \<Rightarrow> string option" where
  "sample_cmp hash password =
     (if hash = ''$2a$10$'' @ password then None
      else Some ''hashedPassword is not the hash of the given password'')"

text \<open>\<open>sample_parse\<close> gives what \<^verbatim>\<open>time.ParseDuration\<close> gives on three strings.\<close>

definition sample_parse :: "string \<Rightarrow> string + duration" where
  "sample_parse s =
     (if s = ''5m'' then Inr (300 * Second)
      else if s = ''10m'' then Inr (600 * Second)
      else if s = ''168h'' then Inr (604800 * Second)
      else Inl ''time: invalid duration'')"

definition sample_env :: "string \<Rightarrow> string" where
  "sample_env name =
     (if name = ''ADMIN_USERNAME'' then ''admin''
      else if name = ''ADMIN_PASSWORD'' then ''devpass123''
      else if name = ''ACCESS_TOKEN_DURATION'' then ''10m''
      else if name = ''REFRESH_TOKEN_DURATION'' then ''5m''
      else [])"

definition sample_session :: "string \<Rightarrow> string \<Rightarrow> instant \<Rightarrow> Session" where
  "sample_session u t c =
     \<lparr>Session.Username = u, RefreshTokenHash = t, CreatedAt = c, LastUsedAt = c,
      UserAgent = ''curl''\<rparr>"

definition sample_server :: server where
  "sample_server =
     \<lparr>users = [''admin'' \<mapsto> \<lparr>User.Username = ''admin'', PasswordHash = ''$2a$10$devpass123''\<rparr>],
      sessions = Map.empty,
      AccessTokenAuth = ''ak'', RefreshTokenAuth = ''rk'',
      AccessTokenDuration = 10 * Second, RefreshTokenDuration = 20 * Second\<rparr>"

definition sample_request :: "string \<Rightarrow> string \<Rightarrow> request" where
  "sample_request name v = \<lparr>Cookies = [(name, v)], UserAgentHeader = ''curl''\<rparr>"

definition sample_refresh_token :: string where
  "sample_refresh_token = ''IIIIIIIIIIIIIIIIIIII.rk.admin''"

definition sample_access_token :: string where
  "sample_access_token = ''IIIIIIIIII.ak.admin''"

text \<open>The state after \<^verbatim>\<open>admin\<close> has logged in at the instant 0.5 s.\<close>

definition sample_logged_in :: server where
  "sample_logged_in =
     sample_server\<lparr>sessions :=
       [sample_refresh_token \<mapsto> sample_session ''admin'' sample_refresh_token 500000000]\<rparr>"

text \<open>The tokens and the state after that login's refresh token has been rotated at the
  instant 1.5 s.\<close>

definition sample_access_token2 :: string where
  "sample_access_token2 = ''IIIIIIIIIII.ak.admin''"

definition sample_refresh_token2 :: string where
  "sample_refresh_token2 = ''IIIIIIIIIIIIIIIIIIIII.rk.admin''"

definition sample_rotated :: server where
  "sample_rotated =
     sample_server\<lparr>sessions :=
       [sample_refresh_token2 \<mapsto> sample_session ''admin'' sample_refresh_token2 1500000000]\<rparr>"

text \<open>The tokens and the state after the first login's refresh token has been rotated
  at the instant 21 s, one second after the expiry it carries.\<close>

definition sample_access_token3 :: string where
  "sample_access_token3 = ''IIIIIIIIIIIIIIIIIIIIIIIIIIIIIII.ak.admin''"

definition sample_refresh_token3 :: string where
  "sample_refresh_token3 = ''IIIIIIIIIIIIIIIIIIIIIIIIIIIIIIIIIIIIIIIII.rk.admin''"

definition sample_rotated_late :: server where
  "sample_rotated_late =
     sample_server\<lparr>sessions :=
       [sample_refresh_token3 \<mapsto> sample_session ''admin'' sample_refresh_token3 21000000000]\<rparr>"

text \<open>A second user's session, created at the instant 30 s, beside the first.\<close>

definition sample_bob_token :: string where
  "sample_bob_token = ''IIIIIIIIIIIIIIIIIIIIIIIIIIIIIIIIIIIIIIIIIIIIIIIIII.rk.bob''"

definition sample_two :: server where
  "sample_two =
     sample_server\<lparr>sessions :=
       [sample_refresh_token \<mapsto> sample_session ''admin'' sample_refresh_token 500000000,
        sample_bob_token \<mapsto> sample_session ''bob'' sample_bob_token 30000000000]\<rparr>"

section \<open>Facts about the operations\<close>

lemma hashToken_id: "hashToken t = t"
  by (simp add: hashToken_def)

lemma sessions_RevokeSession:
  "sessions (RevokeSession h st) = (sessions st)(h := None)"
  by (simp add: RevokeSession_def)

lemma RefreshSession_absent:
  "sessions st t = None \<Longrightarrow>
   RefreshSession lib now rd t ua st = (Inl (Error ''invalid or expired refresh token''), st)"
  by (simp add: RefreshSession_def hashToken_def)

text \<open>\<open>CreateSession\<close> either fails and leaves the state, or stores one entry under the
  refresh token it returns.\<close>

lemma CreateSession_result:
  "(\<exists>e. CreateSession lib now rd u ua st = (Inl e, st)) \<or>
   (\<exists>a r. CreateSession lib now rd u ua st =
      (Inr (a, r),
       st\<lparr>sessions := (sessions st)(r \<mapsto>
            \<lparr>Session.Username = u, RefreshTokenHash = r, CreatedAt = now,
             LastUsedAt = now, UserAgent = ua\<rparr>)\<rparr>))"
  by (auto simp: CreateSession_def hashToken_def split: sum.splits prod.splits)

lemma CreateSession_sessions:
  "sessions (snd (CreateSession lib now rd u ua st)) k =
     (if refresh_of (fst (CreateSession lib now rd u ua st)) = Some k
      then Some \<lparr>Session.Username = u, RefreshTokenHash = k, CreatedAt = now,
                 LastUsedAt = now, UserAgent = ua\<rparr>
      else sessions st k)"
  using CreateSession_result [of lib now rd u ua st]
  by (auto simp: refresh_of_def)

text \<open>The loops that delete while ranging: a visited key keeps its entry exactly when
  the test fails on it, and a key that is not visited is not touched.\<close>

lemma fold_delete_absent:
  "m k = None \<Longrightarrow>
   fold (\<lambda>hash m. case m hash of None \<Rightarrow> m
                   | Some session \<Rightarrow> if P session then m(hash := None) else m) ks m k = None"
  by (induction ks arbitrary: m) (auto split: option.splits)

lemma fold_delete_other:
  "k \<notin> set ks \<Longrightarrow>
   fold (\<lambda>hash m. case m hash of None \<Rightarrow> m
                   | Some session \<Rightarrow> if P session then m(hash := None) else m) ks m k = m k"
  by (induction ks arbitrary: m) (auto split: option.splits)

lemma fold_delete_lookup:
  "k \<in> set ks \<Longrightarrow>
   fold (\<lambda>hash m. case m hash of None \<Rightarrow> m
                   | Some session \<Rightarrow> if P session then m(hash := None) else m) ks m k =
     (case m k of None \<Rightarrow> None | Some s \<Rightarrow> if P s then None else Some s)"
proof (induction ks arbitrary: m)
  case Nil
  then show ?case by simp
next
  case (Cons h hs)
  show ?case
  proof (cases "k \<in> set hs")
    case True
    then show ?thesis using Cons.IH [OF True] by (auto split: option.splits)
  next
    case False
    then have "k = h" using Cons.prems by simp
    then show ?thesis using False by (auto simp: fold_delete_other split: option.splits)
  qed
qed

lemma fold_delete_eq:
  assumes d: "dom m \<subseteq> set ks"
  shows "fold (\<lambda>hash m. case m hash of None \<Rightarrow> m
                   | Some session \<Rightarrow> if P session then m(hash := None) else m) ks m =
     (\<lambda>k. case m k of None \<Rightarrow> None | Some s \<Rightarrow> if P s then None else Some s)"
proof
  fix k
  show "fold (\<lambda>hash m. case m hash of None \<Rightarrow> m
                   | Some session \<Rightarrow> if P session then m(hash := None) else m) ks m k =
     (case m k of None \<Rightarrow> None | Some s \<Rightarrow> if P s then None else Some s)"
  proof (cases "k \<in> set ks")
    case True
    then show ?thesis by (rule fold_delete_lookup)
  next
    case False
    then have "m k = None" using d by auto
    then show ?thesis by (simp add: fold_delete_absent)
  qed
qed

text \<open>The sample codec meets the contract.\<close>

lemma sample_Verify_Encode:
  assumes "sample_Encode key cl = Inr tok" "cl ''exp'' = Some (JNumber e)"
  shows "(\<exists>c. sample_Verify key now tok = Inr (Some c)) \<longleftrightarrow> now < e * Second"
proof -
  from assms obtain u where tok: "tok = replicate (nat e) CHR ''I'' @ ''.'' @ key @ ''.'' @ u"
    and e: "0 \<le> e"
    by (auto simp: sample_Encode_def split: option.splits jvalue.splits if_splits)
  have tw: "takeWhile (\<lambda>c. c = CHR ''I'') tok = replicate (nat e) CHR ''I''"
    unfolding tok by (subst takeWhile_append2) auto
  have dw: "dropWhile (\<lambda>c. c = CHR ''I'') tok = ''.'' @ key @ ''.'' @ u"
    unfolding tok by (subst dropWhile_append2) auto
  show ?thesis
    using e by (simp add: sample_Verify_def tw dw)
qed

lemma sample_lib_contract: "verifies_until_expiry sample_lib"
  unfolding verifies_until_expiry_def
proof (intro allI impI)
  fix key cl tok e now
  assume "Encode sample_lib key cl = Inr tok" and ex: "cl ''exp'' = Some (JNumber e)"
  then have "sample_Encode key cl = Inr tok" by (simp add: sample_lib_def)
  from sample_Verify_Encode [OF this ex, of now]
  show "(\<exists>c. VerifyToken sample_lib key now tok = Inr (Some c)) = (now < e * Second)"
    by (simp add: sample_lib_def)
qed

text \<open>Whole seconds: \<open>time_Unix\<close> rounds down, so an instant lies before a whole second
  exactly when its own second does.\<close>

lemma div_less_mult:
  assumes "0 < (S::int)"
  shows "(t div S < e) = (t < e * S)"
proof -
  have "(t + (- e) * S) div S = - e + t div S"
    by (rule div_mult_self1) (use assms in simp)
  then have "(t div S < e) = ((t - e * S) div S < 0)"
    by simp
  also have "\<dots> = (t - e * S < 0)"
    using assms by (rule pos_imp_zdiv_neg_iff)
  finally show ?thesis by simp
qed

lemma time_Unix_less: "(time_Unix t < e) = (t < e * Second)"
  unfolding time_Unix_def by (rule div_less_mult) (simp add: Second_def)

lemma time_Unix_floor: "time_Unix t * Second \<le> t"
  by (simp add: time_Unix_def Second_def)

lemma time_Sub_exceeds:
  "minDuration \<le> d \<Longrightarrow> d < maxDuration \<Longrightarrow> (d < time_Sub now c) = (d < now - c)"
  by (auto simp: time_Sub_def Let_def)

text \<open>No call on the session table changes the signing key of the access tokens.\<close>

lemma step_AccessTokenAuth: "AccessTokenAuth (step lib ev st) = AccessTokenAuth st"
proof (cases ev)
  case (DoCreate now rd u ua)
  then show ?thesis using CreateSession_result [of lib now rd u ua st] by auto
next
  case (DoRefresh now rd t ua)
  show ?thesis
    unfolding DoRefresh
    by (auto simp: RefreshSession_def RevokeSession_def Let_def CreateSession_def
        split: option.splits sum.splits jvalue.splits prod.splits)
qed (simp_all add: RevokeSession_def RevokeAllUserSessions_def cleanupExpiredSessions_def
    Logout_def split: option.splits)

lemma run_AccessTokenAuth: "AccessTokenAuth (run lib evs st) = AccessTokenAuth st"
  by (induction evs arbitrary: st) (simp_all add: step_AccessTokenAuth)

text \<open>The sample login.\<close>

lemma replicate_num: "replicate (numeral k) x = x # replicate (pred_numeral k) x"
  by (simp add: numeral_eq_Suc)

lemma sample_login:
  "CreateSession sample_lib 500000000 sample_rd ''admin'' ''curl'' sample_server =
     (Inr (sample_access_token, sample_refresh_token), sample_logged_in)"
  by (simp add: CreateSession_def GenerateAccessToken_def GenerateRefreshToken_def
      generateRandomString_def sample_rd_def sample_lib_def sample_Encode_def sample_server_def
      sample_logged_in_def sample_session_def sample_refresh_token_def sample_access_token_def
      hashToken_def time_Add_def time_Unix_def Second_def replicate_num)

text \<open>What a call can leave in the table: an entry that was there, or the entry stored
  under the refresh token the call hands out.\<close>

lemma fold_delete_Some:
  "fold (\<lambda>hash m. case m hash of None \<Rightarrow> m
                   | Some session \<Rightarrow> if P session then m(hash := None) else m) ks m k = Some s
   \<Longrightarrow> m k = Some s"
  by (cases "k \<in> set ks")
     (auto simp: fold_delete_lookup fold_delete_other split: option.splits if_splits)

lemma RefreshSession_lookup:
  assumes "sessions (snd (RefreshSession lib now rd t ua st)) k = Some s"
  shows "sessions st k = Some s \<or>
         (refresh_of (fst (RefreshSession lib now rd t ua st)) = Some k \<and> RefreshTokenHash s = k)"
  using assms
  by (auto simp: RefreshSession_def hashToken_def Let_def CreateSession_sessions
      sessions_RevokeSession refresh_of_def
      split: option.splits sum.splits jvalue.splits if_splits)

lemma step_lookup:
  assumes "sessions (step lib ev st) k = Some s"
  shows "sessions st k = Some s \<or> (issued lib ev st = Some k \<and> RefreshTokenHash s = k)"
proof (cases ev)
  case (DoCreate now rd u ua)
  then show ?thesis using assms
    by (auto simp: CreateSession_sessions split: if_splits)
next
  case (DoRefresh now rd t ua)
  then show ?thesis using assms RefreshSession_lookup [of lib now rd t ua st k s] by simp
next
  case (DoRevoke h)
  then show ?thesis using assms by (auto simp: sessions_RevokeSession split: if_splits)
next
  case (DoRevokeAll ks u)
  then show ?thesis using assms
    by (auto simp: RevokeAllUserSessions_def dest: fold_delete_Some)
next
  case (DoCleanup ks now)
  then show ?thesis using assms
    by (auto simp: cleanupExpiredSessions_def dest: fold_delete_Some)
next
  case (DoLogout getenv r)
  then show ?thesis using assms by (auto simp: Logout_def split: option.splits)
qed

lemma step_absent:
  "sessions st t = None \<Longrightarrow> issued lib ev st \<noteq> Some t \<Longrightarrow> sessions (step lib ev st) t = None"
  using step_lookup [of lib ev st t] by (cases "sessions (step lib ev st) t") auto

lemma run_absent:
  "sessions st t = None \<Longrightarrow> never_issues lib t evs st \<Longrightarrow> sessions (run lib evs st) t = None"
  by (induction evs arbitrary: st) (auto simp: step_absent)

lemma RefreshSession_success:
  assumes "RefreshSession lib now rd t ua st = (Inr p, st1)"
  shows "\<exists>u. CreateSession lib now rd u ua (RevokeSession t st) = (Inr p, st1)"
  using assms
  by (auto simp: RefreshSession_def hashToken_def Let_def
      split: option.splits sum.splits jvalue.splits)

lemma RefreshSession_rotates:
  assumes "RefreshSession lib now rd t ua st = (Inr (a, t'), st1)" and "t' \<noteq> t"
  shows "sessions st1 t = None"
proof -
  from RefreshSession_success [OF assms(1)] obtain u
    where c: "CreateSession lib now rd u ua (RevokeSession t st) = (Inr (a, t'), st1)" ..
  have "sessions (snd (CreateSession lib now rd u ua (RevokeSession t st))) t = None"
    unfolding CreateSession_sessions using assms(2)
    by (simp add: c refresh_of_def sessions_RevokeSession)
  then show ?thesis by (simp add: c)
qed

text \<open>The sample refreshes (in time, and after the expiry) and a reachable state.\<close>

lemma sample_refresh:
  "RefreshSession sample_lib 1500000000 sample_rd sample_refresh_token ''curl'' sample_logged_in =
     (Inr (sample_access_token2, sample_refresh_token2), sample_rotated)"
  by (simp add: RefreshSession_def RevokeSession_def CreateSession_def GenerateAccessToken_def
      GenerateRefreshToken_def generateRandomString_def sample_rd_def sample_lib_def
      sample_Encode_def sample_Decode_def sample_server_def sample_logged_in_def
      sample_rotated_def sample_session_def sample_refresh_token_def sample_refresh_token2_def
      sample_access_token2_def hashToken_def time_Add_def time_Unix_def Second_def replicate_num
      Let_def)

lemma sample_refresh_late:
  "RefreshSession sample_lib 21000000000 sample_rd sample_refresh_token ''curl'' sample_logged_in =
     (Inr (sample_access_token3, sample_refresh_token3), sample_rotated_late)"
  by (simp add: RefreshSession_def RevokeSession_def CreateSession_def GenerateAccessToken_def
      GenerateRefreshToken_def generateRandomString_def sample_rd_def sample_lib_def
      sample_Encode_def sample_Decode_def sample_server_def sample_logged_in_def
      sample_rotated_late_def sample_session_def sample_refresh_token_def
      sample_refresh_token3_def sample_access_token3_def hashToken_def time_Add_def
      time_Unix_def Second_def replicate_num Let_def)

lemma sample_reachable: "reachable sample_lib sample_logged_in {sample_refresh_token}"
proof -
  have "reachable sample_lib sample_server {}"
    by (rule reachable.initial) (simp add: sample_server_def)
  from reachable.after [OF this, of "DoCreate 500000000 sample_rd ''admin'' ''curl''"]
  show ?thesis by (simp add: sample_login refresh_of_def)
qed

lemma Logout_state: "snd (Logout getenv r st) = st"
  by (simp add: Logout_def split: option.splits)

text \<open>Filtering a finite table: the count drops by the number of entries removed.\<close>

lemma card_dom_filter:
  assumes "finite (dom m)"
  shows "card (dom (\<lambda>k. case m k of None \<Rightarrow> None | Some s \<Rightarrow> if P s then None else Some s)) =
         card (dom m) - card {k. \<exists>s. m k = Some s \<and> P s}"
proof -
  have sub: "{k. \<exists>s. m k = Some s \<and> P s} \<subseteq> dom m"
    by auto
  have "dom (\<lambda>k. case m k of None \<Rightarrow> None | Some s \<Rightarrow> if P s then None else Some s) =
        dom m - {k. \<exists>s. m k = Some s \<and> P s}"
    by (auto split: option.splits if_splits)
  then show ?thesis
    using assms sub by (simp add: card_Diff_subset finite_subset)
qed

text \<open>The state with two sessions, and the sample access token.\<close>

lemma sample_tokens_differ: "sample_refresh_token \<noteq> sample_bob_token"
  by (simp add: sample_refresh_token_def sample_bob_token_def)

lemma sample_two_dom: "dom (sessions sample_two) = {sample_refresh_token, sample_bob_token}"
  by (auto simp: sample_two_def)

lemma sample_access:
  "GenerateAccessToken sample_lib 500000000 ''admin'' sample_server =
     Inr (sample_access_token, 10500000000)"
  by (simp add: GenerateAccessToken_def sample_lib_def sample_Encode_def sample_server_def
      sample_access_token_def time_Add_def time_Unix_def Second_def replicate_num)

text \<open>
  Every key of a reachable table is minted. \<open>RefreshSession\<close> returns early, with the
  entry kept, for a decoded token without user name; with a codec that returns the user
  name it encoded, that return is not taken on a token that has an entry in a reachable
  table: whenever \<open>RefreshSession\<close> returns an error for such a token, the entry is
  gone.
\<close>

lemma step_RefreshTokenAuth: "RefreshTokenAuth (step lib ev st) = RefreshTokenAuth st"
proof (cases ev)
  case (DoCreate now rd u ua)
  then show ?thesis using CreateSession_result [of lib now rd u ua st] by auto
next
  case (DoRefresh now rd t ua)
  show ?thesis
    unfolding DoRefresh
    by (auto simp: RefreshSession_def RevokeSession_def Let_def CreateSession_def
        split: option.splits sum.splits jvalue.splits prod.splits)
qed (simp_all add: RevokeSession_def RevokeAllUserSessions_def cleanupExpiredSessions_def
    Logout_state)

lemma CreateSession_minted:
  assumes "refresh_of (fst (CreateSession lib now rd u ua st)) = Some k"
  shows "minted lib st k"
  using assms
  unfolding minted_def CreateSession_def GenerateRefreshToken_def refresh_of_def Let_def
  by (auto split: sum.splits prod.splits intro!: exI)

lemma issued_minted:
  assumes "issued lib ev st = Some k"
  shows "minted lib st k"
proof (cases ev)
  case (DoCreate now rd u ua)
  then show ?thesis using assms by (simp add: CreateSession_minted)
next
  case (DoRefresh now rd t ua)
  with assms obtain p where "fst (RefreshSession lib now rd t ua st) = Inr p"
    and k: "refresh_of (Inr p) = Some k"
    by (cases "fst (RefreshSession lib now rd t ua st)") (auto simp: refresh_of_def)
  then have "RefreshSession lib now rd t ua st = (Inr p, snd (RefreshSession lib now rd t ua st))"
    by (metis prod.collapse)
  from RefreshSession_success [OF this] obtain u
    where "CreateSession lib now rd u ua (RevokeSession t st) =
             (Inr p, snd (RefreshSession lib now rd t ua st))" ..
  then have "fst (CreateSession lib now rd u ua (RevokeSession t st)) = Inr p" by simp
  with k have "minted lib (RevokeSession t st) k"
    using CreateSession_minted [of lib now rd u ua "RevokeSession t st" k] by simp
  then show ?thesis by (simp add: minted_def RevokeSession_def)
qed (use assms in simp_all)

lemma reachable_minted:
  assumes "reachable lib st T" and "sessions st k = Some s"
  shows "minted lib st k"
  using assms
proof (induction arbitrary: k s rule: reachable.induct)
  case (initial st)
  then show ?case by simp
next
  case (after st T ev)
  from step_lookup [OF after.prems]
  have "minted lib st k"
    using after.IH issued_minted by blast
  then show ?case by (simp add: minted_def step_RefreshTokenAuth)
qed

lemma refresh_error_revokes:
  assumes "reachable lib st T" and "decode_returns_username lib"
    and "sessions st t = Some s"
    and "fst (RefreshSession lib now rd t ua st) = Inl e"
  shows "sessions (snd (RefreshSession lib now rd t ua st)) t = None"
proof -
  from reachable_minted [OF assms(1,3)] obtain cl u
    where enc: "Encode lib (RefreshTokenAuth st) cl = Inr t"
      and un: "cl ''username'' = Some (JString u)"
    unfolding minted_def by blast
  have dec: "c ''username'' = Some (JString u)"
    if "Decode lib (RefreshTokenAuth st) now t = Inr (Some c)" for c
    using assms(2) enc that un unfolding decode_returns_username_def by metis
  show ?thesis
  proof (cases "Decode lib (RefreshTokenAuth st) now t")
    case (Inl err)
    then show ?thesis
      using assms(3) by (simp add: RefreshSession_def hashToken_def sessions_RevokeSession)
  next
    case (Inr tk)
    show ?thesis
    proof (cases tk)
      case None
      then show ?thesis
        using assms(3) Inr by (simp add: RefreshSession_def hashToken_def sessions_RevokeSession)
    next
      case (Some c)
      have rs: "RefreshSession lib now rd t ua st =
                  CreateSession lib now rd u ua (RevokeSession t st)"
        using assms(3) Inr Some dec [of c]
        by (simp add: RefreshSession_def hashToken_def)
      with assms(4) have "refresh_of (fst (CreateSession lib now rd u ua (RevokeSession t st))) = None"
        by (simp add: refresh_of_def)
      then show ?thesis
        by (simp add: rs CreateSession_sessions sessions_RevokeSession)
    qed
  qed
qed

lemma sample_Decode_username:
  assumes "sample_Encode key cl = Inr tok" "sample_Decode key now tok = Inr (Some c)"
  shows "c ''username'' = cl ''username''"
proof -
  from assms(1) obtain e u where tok: "tok = replicate (nat e) CHR ''I'' @ ''.'' @ key @ ''.'' @ u"
    and u: "cl ''username'' = Some (JString u)"
    by (auto simp: sample_Encode_def split: option.splits jvalue.splits if_splits)
  have dw: "dropWhile (\<lambda>c. c = CHR ''I'') tok = ''.'' @ key @ ''.'' @ u"
    unfolding tok by (subst dropWhile_append2) auto
  show ?thesis
    using assms(2) u by (auto simp: sample_Decode_def dw Let_def split: if_splits)
qed

lemma sample_lib_returns_username: "decode_returns_username sample_lib"
  unfolding decode_returns_username_def
  by (auto simp: sample_lib_def dest: sample_Decode_username)

section \<open>Startup\<close>

text \<open>
  C2 does not hold as stated: with both signing secrets unset and an access duration
  (10 minutes) above the refresh duration (5 minutes), \<open>InitializeUsers\<close> and
  \<open>Initialize\<close> both return nil; the secrets get their built-in defaults and the
  durations are stored as they are.
\<close>

theorem startup_accepts_defaults_counterexample:
  "sample_env ''JWT_ACCESS_SECRET'' = [] \<and> sample_env ''JWT_REFRESH_SECRET'' = [] \<and>
   fst (InitializeUsers sample_gen sample_env sample_server) = None \<and>
   fst (Initialize sample_parse sample_env sample_server) = None \<and>
   AccessTokenDuration (snd (Initialize sample_parse sample_env sample_server)) = 600 * Second \<and>
   RefreshTokenDuration (snd (Initialize sample_parse sample_env sample_server)) = 300 * Second \<and>
   RefreshTokenDuration (snd (Initialize sample_parse sample_env sample_server)) \<le>
     AccessTokenDuration (snd (Initialize sample_parse sample_env sample_server)) \<and>
   AccessTokenAuth (snd (Initialize sample_parse sample_env sample_server)) =
     ''default-access-secret-change-this-in-production'' \<and>
   RefreshTokenAuth (snd (Initialize sample_parse sample_env sample_server)) =
     ''default-refresh-secret-change-this-in-production''"
  by (simp add: InitializeUsers_def Initialize_def sample_env_def sample_gen_def sample_parse_def
      Let_def Second_def)

text \<open>
  C2 (amended): \<open>InitializeUsers\<close> returns an error whenever the administrator's
  name or password is unset, and \<open>Initialize\<close> returns an error exactly when one of
  the two duration strings (the configured ones, or the defaults \<^verbatim>\<open>5m\<close> and \<^verbatim>\<open>168h\<close>)
  does not parse. Whatever it returns, each signing key is the configured secret, or
  its built-in default when the secret is unset; and when both durations parse they
  are stored as parsed, in whatever order they are.
\<close>

theorem startup_refuses:
  "(getenv ''ADMIN_USERNAME'' = [] \<or> getenv ''ADMIN_PASSWORD'' = [] \<longrightarrow>
      fst (InitializeUsers gen getenv st) \<noteq> None) \<and>
   (fst (Initialize parse getenv st) \<noteq> None \<longleftrightarrow>
      (\<exists>err. parse (if getenv ''ACCESS_TOKEN_DURATION'' = [] then ''5m''
                     else getenv ''ACCESS_TOKEN_DURATION'') = Inl err) \<or>
      (\<exists>err. parse (if getenv ''REFRESH_TOKEN_DURATION'' = [] then ''168h''
                     else getenv ''REFRESH_TOKEN_DURATION'') = Inl err)) \<and>
   AccessTokenAuth (snd (Initialize parse getenv st)) =
     (if getenv ''JWT_ACCESS_SECRET'' = []
      then ''default-access-secret-change-this-in-production''
      else getenv ''JWT_ACCESS_SECRET'') \<and>
   RefreshTokenAuth (snd (Initialize parse getenv st)) =
     (if getenv ''JWT_REFRESH_SECRET'' = []
      then ''default-refresh-secret-change-this-in-production''
      else getenv ''JWT_REFRESH_SECRET'') \<and>
   (\<forall>ad rd.
      parse (if getenv ''ACCESS_TOKEN_DURATION'' = [] then ''5m''
             else getenv ''ACCESS_TOKEN_DURATION'') = Inr ad \<longrightarrow>
      parse (if getenv ''REFRESH_TOKEN_DURATION'' = [] then ''168h''
             else getenv ''REFRESH_TOKEN_DURATION'') = Inr rd \<longrightarrow>
      AccessTokenDuration (snd (Initialize parse getenv st)) = ad \<and>
      RefreshTokenDuration (snd (Initialize parse getenv st)) = rd)"
proof (intro conjI)
  show "getenv ''ADMIN_USERNAME'' = [] \<or> getenv ''ADMIN_PASSWORD'' = [] \<longrightarrow>
      fst (InitializeUsers gen getenv st) \<noteq> None"
    by (auto simp: InitializeUsers_def Let_def)
next
  show "fst (Initialize parse getenv st) \<noteq> None \<longleftrightarrow>
      (\<exists>err. parse (if getenv ''ACCESS_TOKEN_DURATION'' = [] then ''5m''
                     else getenv ''ACCESS_TOKEN_DURATION'') = Inl err) \<or>
      (\<exists>err. parse (if getenv ''REFRESH_TOKEN_DURATION'' = [] then ''168h''
                     else getenv ''REFRESH_TOKEN_DURATION'') = Inl err)"
    unfolding Initialize_def Let_def
    by (cases "parse (if getenv ''ACCESS_TOKEN_DURATION'' = [] then ''5m''
                     else getenv ''ACCESS_TOKEN_DURATION'')";
        cases "parse (if getenv ''REFRESH_TOKEN_DURATION'' = [] then ''168h''
                     else getenv ''REFRESH_TOKEN_DURATION'')") simp_all
next
  show "AccessTokenAuth (snd (Initialize parse getenv st)) =
     (if getenv ''JWT_ACCESS_SECRET'' = []
      then ''default-access-secret-change-this-in-production''
      else getenv ''JWT_ACCESS_SECRET'')"
    unfolding Initialize_def Let_def by (simp split: sum.splits)
next
  show "RefreshTokenAuth (snd (Initialize parse getenv st)) =
     (if getenv ''JWT_REFRESH_SECRET'' = []
      then ''default-refresh-secret-change-this-in-production''
      else getenv ''JWT_REFRESH_SECRET'')"
    unfolding Initialize_def Let_def by (simp split: sum.splits)
next
  show "\<forall>ad rd.
      parse (if getenv ''ACCESS_TOKEN_DURATION'' = [] then ''5m''
             else getenv ''ACCESS_TOKEN_DURATION'') = Inr ad \<longrightarrow>
      parse (if getenv ''REFRESH_TOKEN_DURATION'' = [] then ''168h''
             else getenv ''REFRESH_TOKEN_DURATION'') = Inr rd \<longrightarrow>
      AccessTokenDuration (snd (Initialize parse getenv st)) = ad \<and>
      RefreshTokenDuration (snd (Initialize parse getenv st)) = rd"
    unfolding Initialize_def Let_def by simp
qed

text \<open>With nothing configured, \<open>InitializeUsers\<close> refuses and \<open>Initialize\<close> succeeds
  on the default secrets and the default durations; a duration that does not parse is
  refused; a configured secret is the key.\<close>

theorem startup_refuses_witness:
  "fst (InitializeUsers sample_gen (\<lambda>name. []) sample_server) \<noteq> None \<and>
   fst (Initialize sample_parse (\<lambda>name. if name = ''ACCESS_TOKEN_DURATION'' then ''soon'' else [])
          sample_server) \<noteq> None \<and>
   fst (Initialize sample_parse (\<lambda>name. []) sample_server) = None \<and>
   AccessTokenAuth (snd (Initialize sample_parse (\<lambda>name. []) sample_server)) =
     ''default-access-secret-change-this-in-production'' \<and>
   RefreshTokenAuth (snd (Initialize sample_parse (\<lambda>name. []) sample_server)) =
     ''default-refresh-secret-change-this-in-production'' \<and>
   AccessTokenDuration (snd (Initialize sample_parse (\<lambda>name. []) sample_server)) =
     300 * Second \<and>
   RefreshTokenDuration (snd (Initialize sample_parse (\<lambda>name. []) sample_server)) =
     604800 * Second \<and>
   RefreshTokenAuth (snd (Initialize sample_parse
       (\<lambda>name. if name = ''JWT_REFRESH_SECRET'' then ''s3cret'' else []) sample_server)) =
     ''s3cret''"
  using startup_refuses [of "\<lambda>name. []" sample_gen sample_server sample_parse]
    startup_refuses [of "\<lambda>name. if name = ''ACCESS_TOKEN_DURATION'' then ''soon'' else []"
      sample_gen sample_server sample_parse]
    startup_refuses [of "\<lambda>name. if name = ''JWT_REFRESH_SECRET'' then ''s3cret'' else []"
      sample_gen sample_server sample_parse]
  by (simp add: sample_parse_def)

section \<open>Credentials\<close>

text \<open>
  C6: a pair that is not a registered user name with its password is refused by
  \<open>ValidateCredentials\<close> with the one error \<^verbatim>\<open>invalid credentials\<close>, whether the user
  name is unknown or the password does not match: the error does not tell the two
  causes apart.
\<close>

theorem invalid_credentials_uniform:
  "\<not> (\<exists>user. users st username = Some user \<and> cmp (PasswordHash user) password = None) \<Longrightarrow>
   ValidateCredentials cmp username password st = Some (Error ''invalid credentials'')"
  by (auto simp: ValidateCredentials_def split: option.splits)

text \<open>An unknown user and a wrong password for \<^verbatim>\<open>admin\<close> get the same error; the right
  password gets none.\<close>

theorem invalid_credentials_uniform_witness:
  "users sample_server ''mallory'' = None \<and>
   ValidateCredentials sample_cmp ''mallory'' ''devpass123'' sample_server =
     Some (Error ''invalid credentials'') \<and>
   users sample_server ''admin'' \<noteq> None \<and>
   ValidateCredentials sample_cmp ''admin'' ''letmein'' sample_server =
     Some (Error ''invalid credentials'') \<and>
   ValidateCredentials sample_cmp ''admin'' ''devpass123'' sample_server = None"
proof -
  have a: "\<not> (\<exists>user. users sample_server ''mallory'' = Some user \<and>
             sample_cmp (PasswordHash user) ''devpass123'' = None)"
    by (simp add: sample_server_def)
  have b: "\<not> (\<exists>user. users sample_server ''admin'' = Some user \<and>
             sample_cmp (PasswordHash user) ''letmein'' = None)"
    by (simp add: sample_server_def sample_cmp_def)
  have c: "ValidateCredentials sample_cmp ''admin'' ''devpass123'' sample_server = None"
    by (simp add: ValidateCredentials_def sample_server_def sample_cmp_def)
  show ?thesis
    using invalid_credentials_uniform [of sample_server "''mallory''" sample_cmp "''devpass123''"]
      invalid_credentials_uniform [of sample_server "''admin''" sample_cmp "''letmein''"] a b c
    by (simp add: sample_server_def)
qed

section \<open>The session table\<close>

text \<open>
  C3 does not hold as stated: the table's key and the stored \<open>RefreshTokenHash\<close> are
  the raw refresh token, since \<open>hashToken\<close> returns its argument. After the sample
  login the entry is stored under the very string that was returned to the client.
\<close>

theorem registry_key_counterexample:
  "fst (CreateSession sample_lib 500000000 sample_rd ''admin'' ''curl'' sample_server) =
     Inr (sample_access_token, sample_refresh_token) \<and>
   map_option RefreshTokenHash
     (sessions (snd (CreateSession sample_lib 500000000 sample_rd ''admin'' ''curl'' sample_server))
        sample_refresh_token) = Some sample_refresh_token"
  by (simp add: sample_login sample_logged_in_def sample_session_def)

text \<open>
  C3 (amended): in every state the store reaches from an empty table, each key of the
  table is one of the raw refresh tokens handed out so far, the stored
  \<open>RefreshTokenHash\<close> equals the key, and \<open>hashToken\<close> leaves it as it is.
\<close>

theorem registry_keys_are_raw_tokens:
  assumes "reachable lib st T" and "sessions st k = Some s"
  shows "k \<in> T \<and> RefreshTokenHash s = k \<and> hashToken k = k"
  using assms
proof (induction arbitrary: k s rule: reachable.induct)
  case (initial st)
  then show ?case by simp
next
  case (after st T ev)
  from step_lookup [OF after.prems]
  show ?case
  proof
    assume "sessions st k = Some s"
    then show ?thesis using after.IH by auto
  next
    assume "issued lib ev st = Some k \<and> RefreshTokenHash s = k"
    then show ?thesis by (simp add: hashToken_def)
  qed
qed

theorem registry_keys_are_raw_tokens_witness:
  "reachable sample_lib sample_logged_in {sample_refresh_token} \<and>
   sessions sample_logged_in sample_refresh_token =
     Some (sample_session ''admin'' sample_refresh_token 500000000) \<and>
   RefreshTokenHash (sample_session ''admin'' sample_refresh_token 500000000) =
     sample_refresh_token \<and>
   hashToken sample_refresh_token = sample_refresh_token"
proof -
  have a: "sessions sample_logged_in sample_refresh_token =
     Some (sample_session ''admin'' sample_refresh_token 500000000)"
    by (simp add: sample_logged_in_def)
  show ?thesis
    using registry_keys_are_raw_tokens [OF sample_reachable a] sample_reachable a by simp
qed

text \<open>
  C7: one pass of the cleanup over a table whose keys the loop visits removes exactly
  the sessions whose age \<open>now - CreatedAt\<close> exceeds \<open>RefreshTokenDuration\<close> and leaves
  every other entry as it was; of \<open>N\<close> sessions with \<open>K\<close> of them over age,
  \<open>N - K\<close> remain. The maximum age is a duration below the greatest one, where
  \<^verbatim>\<open>Time.Sub\<close> saturates.
\<close>

theorem cleanup_removes_exactly_expired:
  assumes "set ks = dom (sessions st)"
    and "minDuration \<le> RefreshTokenDuration st" and "RefreshTokenDuration st < maxDuration"
  shows "sessions (cleanupExpiredSessions ks now st) =
           (\<lambda>h. case sessions st h of
                  None \<Rightarrow> None
                | Some s \<Rightarrow> if RefreshTokenDuration st < now - CreatedAt s then None else Some s) \<and>
         GetSessionCount (cleanupExpiredSessions ks now st) =
           GetSessionCount st -
           card {h. \<exists>s. sessions st h = Some s \<and> RefreshTokenDuration st < now - CreatedAt s}"
proof -
  have d: "dom (sessions st) \<subseteq> set ks"
    using assms(1) by simp
  have fin: "finite (dom (sessions st))"
    using assms(1) [symmetric] by simp
  have eq: "sessions (cleanupExpiredSessions ks now st) =
           (\<lambda>h. case sessions st h of
                  None \<Rightarrow> None
                | Some s \<Rightarrow> if RefreshTokenDuration st < now - CreatedAt s then None else Some s)"
    by (simp add: cleanupExpiredSessions_def fold_delete_eq [OF d]
        time_Sub_exceeds [OF assms(2,3)] cong: option.case_cong)
  show ?thesis
    unfolding GetSessionCount_def eq
    using card_dom_filter [OF fin] by simp
qed

theorem cleanup_removes_exactly_expired_witness:
  "GetSessionCount sample_two = 2 \<and>
   sessions (cleanupExpiredSessions [sample_refresh_token, sample_bob_token] 40000000000 sample_two)
     sample_refresh_token = None \<and>
   sessions (cleanupExpiredSessions [sample_refresh_token, sample_bob_token] 40000000000 sample_two)
     sample_bob_token = Some (sample_session ''bob'' sample_bob_token 30000000000) \<and>
   GetSessionCount
     (cleanupExpiredSessions [sample_refresh_token, sample_bob_token] 40000000000 sample_two) = 1"
proof -
  have ks: "set [sample_refresh_token, sample_bob_token] = dom (sessions sample_two)"
    by (simp add: sample_two_dom)
  have lo: "minDuration \<le> RefreshTokenDuration sample_two"
    and hi: "RefreshTokenDuration sample_two < maxDuration"
    by (simp_all add: sample_two_def sample_server_def minDuration_def maxDuration_def Second_def)
  have n: "GetSessionCount sample_two = 2"
    using sample_tokens_differ by (simp add: GetSessionCount_def sample_two_dom)
  have k: "{h. \<exists>s. sessions sample_two h = Some s \<and>
             RefreshTokenDuration sample_two < 40000000000 - CreatedAt s} = {sample_refresh_token}"
    using sample_tokens_differ
    by (auto simp: sample_two_def sample_server_def sample_session_def Second_def
        split: if_splits)
  show ?thesis
    using cleanup_removes_exactly_expired [OF ks lo hi, of 40000000000] n sample_tokens_differ
    unfolding k
    by (simp add: sample_two_def sample_server_def sample_session_def Second_def)
qed

text \<open>
  C9: \<open>RevokeAllUserSessions\<close> for a user removes exactly the entries that user owns
  and leaves every other entry as it was; afterwards \<open>RefreshSession\<close> fails, with the
  error of a missing session, on every token whose entry (if it had one) was that
  user's.
\<close>

theorem RevokeAllUserSessions_frame:
  assumes "set ks = dom (sessions st)"
  shows "sessions (RevokeAllUserSessions ks u st) =
           (\<lambda>h. case sessions st h of
                  None \<Rightarrow> None
                | Some s \<Rightarrow> if Session.Username s = u then None else Some s) \<and>
         (\<forall>t. (\<forall>s. sessions st t = Some s \<longrightarrow> Session.Username s = u) \<longrightarrow>
              RefreshSession lib now rd t ua (RevokeAllUserSessions ks u st) =
                (Inl (Error ''invalid or expired refresh token''), RevokeAllUserSessions ks u st))"
proof -
  have d: "dom (sessions st) \<subseteq> set ks"
    using assms by simp
  have eq: "sessions (RevokeAllUserSessions ks u st) =
           (\<lambda>h. case sessions st h of
                  None \<Rightarrow> None
                | Some s \<Rightarrow> if Session.Username s = u then None else Some s)"
    by (simp add: RevokeAllUserSessions_def fold_delete_eq [OF d])
  have "RefreshSession lib now rd t ua (RevokeAllUserSessions ks u st) =
          (Inl (Error ''invalid or expired refresh token''), RevokeAllUserSessions ks u st)"
    if "\<forall>s. sessions st t = Some s \<longrightarrow> Session.Username s = u" for t
  proof (rule RefreshSession_absent)
    show "sessions (RevokeAllUserSessions ks u st) t = None"
      unfolding eq using that by (auto split: option.splits)
  qed
  with eq show ?thesis by blast
qed

theorem RevokeAllUserSessions_frame_witness:
  "sessions (RevokeAllUserSessions [sample_refresh_token, sample_bob_token] ''admin'' sample_two)
     sample_refresh_token = None \<and>
   sessions (RevokeAllUserSessions [sample_refresh_token, sample_bob_token] ''admin'' sample_two)
     sample_bob_token = Some (sample_session ''bob'' sample_bob_token 30000000000) \<and>
   fst (RefreshSession sample_lib 1500000000 sample_rd sample_refresh_token ''curl''
     (RevokeAllUserSessions [sample_refresh_token, sample_bob_token] ''admin'' sample_two)) =
     Inl (Error ''invalid or expired refresh token'')"
proof -
  have ks: "set [sample_refresh_token, sample_bob_token] = dom (sessions sample_two)"
    by (simp add: sample_two_dom)
  have own: "\<forall>s. sessions sample_two sample_refresh_token = Some s \<longrightarrow>
               Session.Username s = ''admin''"
    using sample_tokens_differ by (simp add: sample_two_def sample_session_def)
  from RevokeAllUserSessions_frame [OF ks, of "''admin''" sample_lib 1500000000 sample_rd "''curl''"]
  have eq: "sessions (RevokeAllUserSessions [sample_refresh_token, sample_bob_token] ''admin''
              sample_two) =
           (\<lambda>h. case sessions sample_two h of
                  None \<Rightarrow> None
                | Some s \<Rightarrow> if Session.Username s = ''admin'' then None else Some s)"
    and rf: "RefreshSession sample_lib 1500000000 sample_rd sample_refresh_token ''curl''
        (RevokeAllUserSessions [sample_refresh_token, sample_bob_token] ''admin'' sample_two) =
        (Inl (Error ''invalid or expired refresh token''),
         RevokeAllUserSessions [sample_refresh_token, sample_bob_token] ''admin'' sample_two)"
    using own by blast+
  show ?thesis
    unfolding eq rf using sample_tokens_differ
    by (simp add: sample_two_def sample_session_def)
qed

section \<open>Refresh\<close>

text \<open>
  C4: once \<open>RefreshSession\<close> has succeeded on a refresh token \<open>t\<close> and returned a
  different one, every later \<open>RefreshSession\<close> on \<open>t\<close> fails with the error of a
  missing session, returns no tokens and leaves the state, after any calls on the store
  that do not hand out \<open>t\<close> again. Nothing is assumed of \<open>Decode\<close>: the token may
  still verify. The random token id is what keeps a new token from being \<open>t\<close>.
\<close>

theorem rotated_token_refused:
  assumes "RefreshSession lib now rd t ua st = (Inr (a, t'), st1)"
    and "t' \<noteq> t"
    and "never_issues lib t evs st1"
  shows "RefreshSession lib now' rd' t ua' (run lib evs st1) =
           (Inl (Error ''invalid or expired refresh token''), run lib evs st1)"
proof -
  have "sessions st1 t = None"
    using assms(1,2) by (rule RefreshSession_rotates)
  then have "sessions (run lib evs st1) t = None"
    using assms(3) by (rule run_absent)
  then show ?thesis by (rule RefreshSession_absent)
qed

theorem rotated_token_refused_witness:
  "Decode sample_lib (RefreshTokenAuth sample_rotated) 3000000000 sample_refresh_token =
     Inr (Some [''username'' \<mapsto> JString ''admin'', ''exp'' \<mapsto> JNumber 20]) \<and>
   fst (RefreshSession sample_lib 3000000000 sample_rd sample_refresh_token ''curl''
     (run sample_lib [DoCreate 2000000000 sample_rd ''admin'' ''curl'', DoRevoke ''x'']
        sample_rotated)) =
     Inl (Error ''invalid or expired refresh token'')"
proof -
  have ne: "sample_refresh_token2 \<noteq> sample_refresh_token"
    by (simp add: sample_refresh_token2_def sample_refresh_token_def)
  have ni: "never_issues sample_lib sample_refresh_token
      [DoCreate 2000000000 sample_rd ''admin'' ''curl'', DoRevoke ''x''] sample_rotated"
    by (simp add: refresh_of_def CreateSession_def GenerateAccessToken_def
      GenerateRefreshToken_def generateRandomString_def sample_rd_def sample_lib_def
      sample_Encode_def sample_server_def sample_rotated_def sample_refresh_token_def
      hashToken_def time_Add_def time_Unix_def Second_def replicate_num)
  have d: "Decode sample_lib (RefreshTokenAuth sample_rotated) 3000000000 sample_refresh_token =
     Inr (Some [''username'' \<mapsto> JString ''admin'', ''exp'' \<mapsto> JNumber 20])"
    by (simp add: sample_lib_def sample_Decode_def sample_rotated_def sample_server_def
        sample_refresh_token_def Second_def)
  show ?thesis
    using rotated_token_refused [OF sample_refresh ne ni, of 3000000000 sample_rd "''curl''"] d
    by simp
qed

text \<open>
  C5 fails on the code: \<open>RefreshSession\<close> checks the presented token with \<open>Decode\<close>,
  which does not look at the expiry, where the request guard uses \<open>VerifyToken\<close>. A
  refresh token whose expiry has passed and whose session the hourly cleanup has not
  yet removed is therefore not refused: after the sample login (refresh duration 20 s)
  a refresh at the instant 21 s, with the token that \<open>VerifyToken\<close> refuses as expired,
  returns a new pair of tokens and stores a new session.
\<close>

theorem expired_refresh_token_rotated:
  "sessions sample_logged_in sample_refresh_token =
     Some (sample_session ''admin'' sample_refresh_token 500000000) \<and>
   Decode sample_lib (RefreshTokenAuth sample_logged_in) 21000000000 sample_refresh_token =
     Inr (Some [''username'' \<mapsto> JString ''admin'', ''exp'' \<mapsto> JNumber 20]) \<and>
   20 * Second \<le> (21000000000 :: int) \<and>
   VerifyToken sample_lib (RefreshTokenAuth sample_logged_in) 21000000000 sample_refresh_token =
     Inl ''token is expired'' \<and>
   RefreshSession sample_lib 21000000000 sample_rd sample_refresh_token ''curl'' sample_logged_in =
     (Inr (sample_access_token3, sample_refresh_token3), sample_rotated_late) \<and>
   sessions sample_rotated_late sample_refresh_token3 =
     Some (sample_session ''admin'' sample_refresh_token3 21000000000)"
  by (simp add: sample_refresh_late)
     (simp add: sample_lib_def sample_Decode_def sample_Verify_def sample_logged_in_def
        sample_rotated_late_def sample_server_def sample_refresh_token_def Second_def)

section \<open>The request guard\<close>

text \<open>
  C10: the outcome of \<open>Protected\<close> is fixed by the access-token cookie, the signing key
  of the access tokens and the clock; two states that differ in the session table (or in
  anything but that key) give the same outcome. An access token that passes still
  passes after its session has been revoked.
\<close>

theorem Protected_ignores_registry:
  assumes "AccessTokenAuth st1 = AccessTokenAuth st2"
    and "Cookie r1 ''access_token'' = Cookie r2 ''access_token''"
  shows "Protected lib now r1 st1 = Protected lib now r2 st2"
  using assms by (simp add: Protected_def split: option.splits)

theorem Protected_ignores_registry_witness:
  "sessions (RevokeSession sample_refresh_token sample_logged_in) sample_refresh_token = None \<and>
   Protected sample_lib 1000000000 (sample_request ''access_token'' sample_access_token)
     (RevokeSession sample_refresh_token sample_logged_in) =
   Protected sample_lib 1000000000 (sample_request ''access_token'' sample_access_token)
     sample_logged_in \<and>
   passed (Protected sample_lib 1000000000 (sample_request ''access_token'' sample_access_token)
     (RevokeSession sample_refresh_token sample_logged_in))"
proof -
  have k: "AccessTokenAuth (RevokeSession sample_refresh_token sample_logged_in) =
           AccessTokenAuth sample_logged_in"
    by (simp add: RevokeSession_def)
  have p: "passed (Protected sample_lib 1000000000
             (sample_request ''access_token'' sample_access_token) sample_logged_in)"
    by (simp add: Protected_def sample_request_def Cookie_def sample_lib_def sample_Verify_def
        sample_logged_in_def sample_server_def sample_access_token_def Second_def)
  show ?thesis
    using Protected_ignores_registry [OF k refl, of sample_lib 1000000000
        "sample_request ''access_token'' sample_access_token"] p
    by (simp add: sessions_RevokeSession)
qed

text \<open>
  C8 does not hold as stated for the expiry that \<open>GenerateAccessToken\<close> returns: the
  token carries \<^verbatim>\<open>expiresAt.Unix()\<close>, whole seconds, so the sample token with
  \<open>expiresAt\<close> = 10.5 s is refused at 10.2 s already.
\<close>

theorem access_token_expiry_counterexample:
  "GenerateAccessToken sample_lib 500000000 ''admin'' sample_server =
     Inr (sample_access_token, 10500000000) \<and>
   (10200000000 :: int) < 10500000000 \<and>
   \<not> passed (Protected sample_lib 10200000000
     (sample_request ''access_token'' sample_access_token) sample_server)"
  by (simp add: sample_access)
     (simp add: Protected_def Cookie_def sample_request_def sample_lib_def sample_Verify_def
        sample_server_def sample_access_token_def http_Error_def Second_def)

text \<open>
  C8 (amended): under a codec that accepts a token exactly before the expiry it
  carries, the guard lets an issued access token through exactly when the second of
  the verification instant lies before the second of \<open>expiresAt\<close>; so it is refused
  at every instant from \<open>expiresAt\<close> on, and also in the part of a second before it.
\<close>

theorem access_token_valid_in_whole_seconds:
  assumes "verifies_until_expiry lib"
    and "GenerateAccessToken lib now u st = Inr (tok, expiresAt)"
    and "Cookie r ''access_token'' = Some tok"
  shows "passed (Protected lib t r st) = (time_Unix t < time_Unix expiresAt) \<and>
         (expiresAt \<le> t \<longrightarrow> \<not> passed (Protected lib t r st))"
proof -
  let ?cl = "[''username'' \<mapsto> JString u,
              ''exp'' \<mapsto> JNumber (time_Unix (time_Add now (AccessTokenDuration st))),
              ''iat'' \<mapsto> JNumber (time_Unix now)]"
  from assms(2) have enc: "Encode lib (AccessTokenAuth st) ?cl = Inr tok"
    and ea: "expiresAt = time_Add now (AccessTokenDuration st)"
    by (auto simp: GenerateAccessToken_def Let_def split: sum.splits)
  have ex: "?cl ''exp'' = Some (JNumber (time_Unix expiresAt))"
    by (simp add: ea)
  from assms(1) enc ex
  have v: "(\<exists>c. VerifyToken lib (AccessTokenAuth st) t tok = Inr (Some c)) =
           (t < time_Unix expiresAt * Second)"
    unfolding verifies_until_expiry_def by blast
  have p: "passed (Protected lib t r st) =
           (\<exists>c. VerifyToken lib (AccessTokenAuth st) t tok = Inr (Some c))"
    by (auto simp: Protected_def assms(3) split: sum.splits option.splits)
  have a: "passed (Protected lib t r st) = (time_Unix t < time_Unix expiresAt)"
    by (simp add: p v time_Unix_less)
  have "\<not> time_Unix t < time_Unix expiresAt" if "expiresAt \<le> t"
  proof -
    have "time_Unix expiresAt * Second \<le> expiresAt" by (rule time_Unix_floor)
    with that show ?thesis by (simp add: time_Unix_less)
  qed
  with a show ?thesis by simp
qed

theorem access_token_valid_in_whole_seconds_witness:
  "passed (Protected sample_lib 9900000000
     (sample_request ''access_token'' sample_access_token) sample_server) \<and>
   \<not> passed (Protected sample_lib 10500000000
     (sample_request ''access_token'' sample_access_token) sample_server) \<and>
   \<not> passed (Protected sample_lib 10000000000
     (sample_request ''access_token'' sample_access_token) sample_server)"
proof -
  have c: "Cookie (sample_request ''access_token'' sample_access_token) ''access_token'' =
           Some sample_access_token"
    by (simp add: Cookie_def sample_request_def)
  note th = access_token_valid_in_whole_seconds [OF sample_lib_contract sample_access c]
  show ?thesis
    using th [of 9900000000] th [of 10500000000] th [of 10000000000]
    by (simp add: time_Unix_def Second_def)
qed

section \<open>Logout\<close>

text \<open>
  C1 fails on the code: \<open>Logout\<close> clears the cookies and leaves the session table as
  it is. After the sample login, a logout that carries the refresh token keeps the
  session, and a refresh with that token afterwards succeeds.
\<close>

theorem Logout_keeps_session:
  "snd (Logout sample_env (sample_request ''refresh_token'' sample_refresh_token) sample_logged_in)
     = sample_logged_in \<and>
   sessions sample_logged_in sample_refresh_token =
     Some (sample_session ''admin'' sample_refresh_token 500000000) \<and>
   RefreshSession sample_lib 1500000000 sample_rd sample_refresh_token ''curl''
     (snd (Logout sample_env (sample_request ''refresh_token'' sample_refresh_token)
        sample_logged_in)) =
     (Inr (sample_access_token2, sample_refresh_token2), sample_rotated)"
  by (simp add: Logout_state sample_refresh) (simp add: sample_logged_in_def)

end
